theory Spec2Isabelle
  imports Complex_Main "HOL-Library.AList" "HOL-Library.Monad_Syntax" "HOL-Library.Multiset"
    "HOL-Library.Char_ord" "HOL-Library.List_Lexorder" "HOL-Library.Product_Lexorder"
begin

section \<open>Values, documents and the document store\<close>

text \<open>
  Python strings that are sliced by the code (the error previews of \<open>test_database\<close>)
  are lists of code points, since \<open>s[:50]\<close> counts code points. Field names, collection
  names and stored text are never sliced and are plain \<open>string\<close>s.
\<close>

type_synonym ustring = "nat list"

definition asc :: "string \<Rightarrow> ustring" where
  "asc s = map of_char s"

text \<open>
  A \<open>datetime\<close> is offset-naive or offset-aware. A naive one is the number of
  microseconds since \<open>datetime.min\<close> (0001-01-01T00:00:00) that its fields spell; an
  aware one is the instant it denotes, in microseconds on the same scale in UTC.
  \<open>datetime.min\<close> is naive and the least naive value.
\<close>

datatype datetime = Naive nat | Aware nat


text \<open>
  The values a stored document can hold. A Python \<open>float\<close> is a real number here: the
  only float field, \<open>MenuItem.price\<close>, is stored and compared with 0 and never computed
  with (NaN fails \<open>ge=0\<close> and is no valid price).
\<close>

datatype pyval =
    PNone
  | PBool bool
  | PInt int
  | PFloat real
  | PStr string
  | PDatetime datetime
  | PObjectId nat
  | PDict "(string \<times> pyval) list"

type_synonym doc = "string \<rightharpoonup> pyval"

datatype error =
    ValidationError
  | HTTPException nat string
  | StoreUnavailable
  | WriteFailure ustring
  | PyMongoError ustring
  | TypeError

text \<open>
  The database object \<open>db\<close> of the \<open>database\<close> module: its name, its collections in
  creation order, the next fresh identifier, and \<open>fault\<close>: when it is \<open>Some msg\<close> the
  server cannot be reached and every driver call raises an exception whose text is
  \<open>msg\<close>.
\<close>

record Database =
  db_name :: string
  colls :: "(string \<times> doc list) list"
  next_oid :: nat
  fault :: "ustring option"

text \<open>
  The process state the handlers read: the module-level \<open>db\<close> (\<open>None\<close> when no
  connection was configured) and the environment variables.
\<close>

record world =
  db :: "Database option"
  env :: "string \<rightharpoonup> string"

definition coll_docs :: "Database \<Rightarrow> string \<Rightarrow> doc list" where
  "coll_docs d c = (case map_of (colls d) c of None \<Rightarrow> [] | Some ds \<Rightarrow> ds)"

text \<open>The documents of a collection of the world's store (none without a store).\<close>

definition stored :: "world \<Rightarrow> string \<Rightarrow> doc list" where
  "stored w c = (case db w of None \<Rightarrow> [] | Some d \<Rightarrow> coll_docs d c)"

text \<open>
  \<open>coll.insert_many(docs)\<close> of the driver: every document without an \<open>_id\<close> gets a
  fresh one, and the documents are appended to the collection.
\<close>

fun assign_ids :: "nat \<Rightarrow> doc list \<Rightarrow> doc list" where
  "assign_ids k [] = []"
| "assign_ids k (d # ds) =
     (if d ''_id'' = None then d(''_id'' \<mapsto> PObjectId k) else d) # assign_ids (Suc k) ds"

definition insert_many :: "Database \<Rightarrow> string \<Rightarrow> doc list \<Rightarrow> error + Database" where
  "insert_many d c docs =
     (case fault d of
        Some msg \<Rightarrow> Inl (PyMongoError msg)
      | None \<Rightarrow>
          Inr (d\<lparr>colls := AList.update c (coll_docs d c @ assign_ids (next_oid d) docs) (colls d),
                 next_oid := next_oid d + length docs\<rparr>))"

section \<open>Collection names\<close>

text \<open>The model classes of \<open>schemas.py\<close> and their \<open>__name__\<close>.\<close>

datatype model_cls =
    MenuItem_cls
  | Special_cls
  | GalleryImage_cls
  | Testimonial_cls
  | ContactMessage_cls
  | Reservation_cls
  | AdminUser_cls
  | AnalyticsEvent_cls

fun cls_name :: "model_cls \<Rightarrow> string" where
  "cls_name MenuItem_cls = ''MenuItem''"
| "cls_name Special_cls = ''Special''"
| "cls_name GalleryImage_cls = ''GalleryImage''"
| "cls_name Testimonial_cls = ''Testimonial''"
| "cls_name ContactMessage_cls = ''ContactMessage''"
| "cls_name Reservation_cls = ''Reservation''"
| "cls_name AdminUser_cls = ''AdminUser''"
| "cls_name AnalyticsEvent_cls = ''AnalyticsEvent''"

text \<open>\<open>str.lower()\<close> on the ASCII range: \<open>A\<close>..\<open>Z\<close> move to \<open>a\<close>..\<open>z\<close>.\<close>

definition lower_char :: "char \<Rightarrow> char" where
  "lower_char c =
     (let n = (of_char c :: nat) in if 65 \<le> n \<and> n \<le> 90 then char_of (n + 32) else c)"

definition lower :: "string \<Rightarrow> string" where
  "lower s = map lower_char s"

definition collection_name :: "model_cls \<Rightarrow> string" where
  "collection_name model_cls = lower (cls_name model_cls)"

section \<open>Entity schemas\<close>

text \<open>
  The pydantic models of \<open>schemas.py\<close> that the handlers below build or dump. A value of
  a record type is a validated instance; \<open>EmailStr\<close> is a string once validated.
\<close>

record MenuItem =
  name :: string
  description :: "string option"
  price :: real
  category :: string
  image_url :: "string option"
  featured :: bool
  vegetarian :: bool

record Special =
  title :: string
  description :: "string option"
  discount_percent :: "int option"
  valid_until :: "datetime option"
  hero_image_url :: "string option"
  cta_text :: "string option"
  active :: bool

record Reservation =
  name :: string
  email :: string
  phone :: "string option"
  date :: string
  time :: string
  guests :: int
  "notes" :: "string option"
  paid :: bool
  payment_reference :: "string option"

text \<open>\<open>class ReservationRequest(Reservation)\<close> adds \<open>pay_now: Optional[bool] = False\<close>.\<close>

record ReservationRequest = Reservation +
  pay_now :: "bool option"

record AnalyticsEvent =
  type :: string
  path :: "string option"
  metadata :: "(string \<times> pyval) list option"
  user_agent :: "string option"
  ip :: "string option"

subsection \<open>\<open>model_dump\<close>: an instance as a field mapping\<close>

definition opt_val :: "('a \<Rightarrow> pyval) \<Rightarrow> 'a option \<Rightarrow> pyval" where
  "opt_val f x = (case x of None \<Rightarrow> PNone | Some v \<Rightarrow> f v)"

definition MenuItem_model_dump :: "MenuItem \<Rightarrow> doc" where
  "MenuItem_model_dump it =
     [''name'' \<mapsto> PStr (MenuItem.name it),
      ''description'' \<mapsto> opt_val PStr (MenuItem.description it),
      ''price'' \<mapsto> PFloat (price it),
      ''category'' \<mapsto> PStr (category it),
      ''image_url'' \<mapsto> opt_val PStr (image_url it),
      ''featured'' \<mapsto> PBool (featured it),
      ''vegetarian'' \<mapsto> PBool (vegetarian it)]"

definition ReservationRequest_model_dump :: "ReservationRequest \<Rightarrow> doc" where
  "ReservationRequest_model_dump r =
     [''name'' \<mapsto> PStr (Reservation.name r),
      ''email'' \<mapsto> PStr (email r),
      ''phone'' \<mapsto> opt_val PStr (phone r),
      ''date'' \<mapsto> PStr (date r),
      ''time'' \<mapsto> PStr (time r),
      ''guests'' \<mapsto> PInt (guests r),
      ''notes'' \<mapsto> opt_val PStr (notes r),
      ''paid'' \<mapsto> PBool (paid r),
      ''payment_reference'' \<mapsto> opt_val PStr (payment_reference r),
      ''pay_now'' \<mapsto> opt_val PBool (pay_now r)]"

definition AnalyticsEvent_model_dump :: "AnalyticsEvent \<Rightarrow> doc" where
  "AnalyticsEvent_model_dump e =
     [''type'' \<mapsto> PStr (type e),
      ''path'' \<mapsto> opt_val PStr (path e),
      ''metadata'' \<mapsto> opt_val PDict (metadata e),
      ''user_agent'' \<mapsto> opt_val PStr (user_agent e),
      ''ip'' \<mapsto> opt_val PStr (ip e)]"

subsection \<open>Validation: \<open>Model(**d)\<close>\<close>

text \<open>
  Building an instance from a stored document validates every declared field: a
  required field must be present, an absent field with a default takes the default, a
  value must have the declared type (\<open>None\<close> only for \<open>Optional\<close> fields), keys that the
  model does not declare are ignored, and the \<open>ge\<close>/\<open>le\<close> bounds are checked. Each
  field validator returns \<open>None\<close> when the field is invalid. Values are taken at their
  declared type only: pydantic's conversions from other types (an integer stored for
  the float \<open>price\<close>, a float without fraction stored for the integer
  \<open>discount_percent\<close>, a number written as a string) are not part of the model, which
  answers \<open>ValidationError\<close> for such a stored document; no document written by the
  handlers below needs them.
\<close>

definition as_str :: "pyval \<Rightarrow> string option" where
  "as_str v = (case v of PStr s \<Rightarrow> Some s | _ \<Rightarrow> None)"

definition as_bool :: "pyval \<Rightarrow> bool option" where
  "as_bool v = (case v of PBool b \<Rightarrow> Some b | _ \<Rightarrow> None)"

definition as_int :: "pyval \<Rightarrow> int option" where
  "as_int v = (case v of PInt i \<Rightarrow> Some i | _ \<Rightarrow> None)"

definition as_float :: "pyval \<Rightarrow> real option" where
  "as_float v = (case v of PFloat x \<Rightarrow> Some x | _ \<Rightarrow> None)"

definition as_datetime :: "pyval \<Rightarrow> datetime option" where
  "as_datetime v = (case v of PDatetime t \<Rightarrow> Some t | _ \<Rightarrow> None)"

text \<open>A required field \<open>f: T = Field(...)\<close>.\<close>

definition required :: "(pyval \<Rightarrow> 'a option) \<Rightarrow> doc \<Rightarrow> string \<Rightarrow> 'a option" where
  "required conv d k = (case d k of None \<Rightarrow> None | Some v \<Rightarrow> conv v)"

text \<open>A field with a default, \<open>f: T = dflt\<close>.\<close>

definition with_default :: "(pyval \<Rightarrow> 'a option) \<Rightarrow> 'a \<Rightarrow> doc \<Rightarrow> string \<Rightarrow> 'a option" where
  "with_default conv dflt d k = (case d k of None \<Rightarrow> Some dflt | Some v \<Rightarrow> conv v)"

text \<open>An optional field \<open>f: Optional[T] = dflt\<close>: \<open>None\<close> is a value of it.\<close>

definition optional :: "(pyval \<Rightarrow> 'a option) \<Rightarrow> 'a option \<Rightarrow> doc \<Rightarrow> string \<Rightarrow> 'a option option" where
  "optional conv dflt d k =
     (case d k of
        None \<Rightarrow> Some dflt
      | Some PNone \<Rightarrow> Some None
      | Some v \<Rightarrow> map_option Some (conv v))"

definition MenuItem_fields :: "doc \<Rightarrow> MenuItem option" where
  "MenuItem_fields d = do {
     n \<leftarrow> required as_str d ''name'';
     ds \<leftarrow> optional as_str None d ''description'';
     p \<leftarrow> required as_float d ''price'';
     c \<leftarrow> required as_str d ''category'';
     im \<leftarrow> optional as_str None d ''image_url'';
     fe \<leftarrow> with_default as_bool False d ''featured'';
     ve \<leftarrow> with_default as_bool True d ''vegetarian'';
     if 0 \<le> p
     then Some \<lparr>MenuItem.name = n, MenuItem.description = ds, price = p, category = c,
                 image_url = im, featured = fe, vegetarian = ve\<rparr>
     else None
   }"

definition MenuItem_validate :: "doc \<Rightarrow> error + MenuItem" where
  "MenuItem_validate d =
     (case MenuItem_fields d of None \<Rightarrow> Inl ValidationError | Some it \<Rightarrow> Inr it)"

definition in_percent :: "int option \<Rightarrow> bool" where
  "in_percent x = (case x of None \<Rightarrow> True | Some i \<Rightarrow> 0 \<le> i \<and> i \<le> 100)"

definition Special_fields :: "doc \<Rightarrow> Special option" where
  "Special_fields d = do {
     t \<leftarrow> required as_str d ''title'';
     ds \<leftarrow> optional as_str None d ''description'';
     dp \<leftarrow> optional as_int None d ''discount_percent'';
     vu \<leftarrow> optional as_datetime None d ''valid_until'';
     hi \<leftarrow> optional as_str None d ''hero_image_url'';
     ct \<leftarrow> optional as_str (Some ''Reserve Now'') d ''cta_text'';
     ac \<leftarrow> with_default as_bool True d ''active'';
     if in_percent dp
     then Some \<lparr>title = t, Special.description = ds, discount_percent = dp, valid_until = vu,
                 hero_image_url = hi, cta_text = ct, active = ac\<rparr>
     else None
   }"

definition Special_validate :: "doc \<Rightarrow> error + Special" where
  "Special_validate d =
     (case Special_fields d of None \<Rightarrow> Inl ValidationError | Some sp \<Rightarrow> Inr sp)"

section \<open>The document store adapter\<close>

text \<open>
  A filter is the exact-match dictionary the handlers build, in insertion order.
\<close>

type_synonym query = "(string \<times> pyval) list"

text \<open>
  Modelled from the spec: the exact-match query of \<open>get_documents\<close>, whose code is not
  among the sources. A record matches when it holds every field of the filter with
  exactly the filter's value; the empty filter matches every record.
\<close>

definition matches :: "query \<Rightarrow> doc \<Rightarrow> bool" where
  "matches flt d = list_all (\<lambda>(k, v). d k = Some v) flt"

text \<open>
  Modelled from the spec: \<open>get_documents\<close> of the \<open>database\<close> module, which is not
  among the sources. It answers an exact-match query on one collection with up to
  \<open>limit\<close> records in the store's order (all of them when no limit is given), each with
  its store-internal \<open>_id\<close>, and it answers with the empty sequence, raising nothing,
  when the store is unavailable.
\<close>

definition get_documents :: "world \<Rightarrow> string \<Rightarrow> query \<Rightarrow> int option \<Rightarrow> doc list" where
  "get_documents w c flt limit =
     (case db w of
        None \<Rightarrow> []
      | Some d \<Rightarrow>
          (case fault d of
             Some msg \<Rightarrow> []
           | None \<Rightarrow>
               (let found = filter (matches flt) (coll_docs d c)
                in case limit of None \<Rightarrow> found | Some n \<Rightarrow> take (nat n) found)))"

text \<open>
  Modelled from the spec: the timestamps \<open>create_document\<close> adds, whose code is not
  among the sources: \<open>created_at\<close> and \<open>updated_at\<close> are set to the server time where they
  are not already present.
\<close>

definition stamp :: "datetime \<Rightarrow> doc \<Rightarrow> doc" where
  "stamp now d =
     (let d1 = (if d ''created_at'' = None then d(''created_at'' \<mapsto> PDatetime now) else d)
      in if d1 ''updated_at'' = None then d1(''updated_at'' \<mapsto> PDatetime now) else d1)"

text \<open>
  Modelled from the spec: \<open>create_document\<close> of the \<open>database\<close> module, which is not
  among the sources. It stamps \<open>created_at\<close> and \<open>updated_at\<close> with the server time
  where they are not present, inserts the mapping as a new record under a
  server-assigned identifier and returns that identifier as the reference; it signals
  \<open>StoreUnavailable\<close> without a live connection and \<open>WriteFailure\<close> when the store
  rejects the insertion.
\<close>

definition create_document :: "datetime \<Rightarrow> world \<Rightarrow> string \<Rightarrow> doc \<Rightarrow> error + (nat \<times> world)" where
  "create_document now w c payload =
     (case db w of
        None \<Rightarrow> Inl StoreUnavailable
      | Some d \<Rightarrow>
          (case fault d of
             Some msg \<Rightarrow> Inl (WriteFailure msg)
           | None \<Rightarrow>
               Inr (next_oid d,
                    w\<lparr>db := Some (d\<lparr>colls :=
                                        AList.update c
                                          (coll_docs d c @
                                             [(stamp now payload)(''_id'' \<mapsto> PObjectId (next_oid d))])
                                          (colls d),
                                      next_oid := Suc (next_oid d)\<rparr>)\<rparr>)))"

section \<open>Request handlers\<close>

text \<open>
  \<open>str(n)\<close> for an integer, as the f-strings print it. \<open>digit\<close> is only applied to
  numbers below 10.
\<close>

definition digit :: "nat \<Rightarrow> char" where
  "digit n = ''0123456789'' ! n"

fun str_nat :: "nat \<Rightarrow> string" where
  "str_nat n = (if n < 10 then [digit n] else str_nat (n div 10) @ [digit (n mod 10)])"

declare str_nat.simps [simp del]

definition str_int :: "int \<Rightarrow> string" where
  "str_int i = (if i < 0 then CHR ''-'' # str_nat (nat (- i)) else str_nat (nat i))"

text \<open>
  The loop shared by the list handlers: pop \<open>_id\<close> from each document and build the
  model from it; the first document that fails validation raises.
\<close>

fun clean_docs :: "(doc \<Rightarrow> error + 'a) \<Rightarrow> doc list \<Rightarrow> error + 'a list" where
  "clean_docs validate [] = Inr []"
| "clean_docs validate (d # ds) =
     (case validate (d(''_id'' := None)) of
        Inl e \<Rightarrow> Inl e
      | Inr x \<Rightarrow> (case clean_docs validate ds of Inl e \<Rightarrow> Inl e | Inr xs \<Rightarrow> Inr (x # xs)))"

subsection \<open>\<open>GET /api/menu\<close>\<close>

text \<open>
  The query parameters \<open>category\<close> and \<open>featured\<close> are \<open>q_category\<close> and
  \<open>q_featured\<close> (\<open>None\<close> when omitted). \<open>if category:\<close> is false for \<open>None\<close> and for
  the empty string; \<open>featured\<close> is tested with \<open>is not None\<close>.
\<close>

definition menu_filter :: "string option \<Rightarrow> bool option \<Rightarrow> query" where
  "menu_filter q_category q_featured =
     (case q_category of
        None \<Rightarrow> []
      | Some c \<Rightarrow> if c = [] then [] else [(''category'', PStr c)]) @
     (case q_featured of None \<Rightarrow> [] | Some b \<Rightarrow> [(''featured'', PBool b)])"

definition get_menu :: "world \<Rightarrow> string option \<Rightarrow> bool option \<Rightarrow> error + MenuItem list" where
  "get_menu w q_category q_featured =
     clean_docs MenuItem_validate
       (get_documents w (collection_name MenuItem_cls) (menu_filter q_category q_featured) None)"

subsection \<open>\<open>GET /api/specials\<close>\<close>

definition get_specials :: "world \<Rightarrow> bool option \<Rightarrow> error + Special list" where
  "get_specials w q_active =
     (let flt = (if q_active = Some True then [(''active'', PBool True)] else [])
      in clean_docs Special_validate (get_documents w (collection_name Special_cls) flt None))"

text \<open>
  The route with its query string: \<open>None\<close> is an omitted \<open>active\<close> parameter, which takes
  the signature's default \<open>True\<close>.
\<close>

definition specials_route :: "world \<Rightarrow> bool option \<Rightarrow> error + Special list" where
  "specials_route w q = get_specials w (case q of None \<Rightarrow> Some True | Some b \<Rightarrow> Some b)"

subsection \<open>\<open>POST /api/reservations\<close>\<close>

record reservation_reply =
  status :: string
  reference :: nat
  payment_reference :: "string option"

text \<open>
  \<open>utc_timestamp\<close> is the value of \<open>int(datetime.utcnow().timestamp())\<close> at the call and
  \<open>now\<close> the server time the adapter stamps.
\<close>

definition submit_reservation ::
  "int \<Rightarrow> datetime \<Rightarrow> world \<Rightarrow> ReservationRequest \<Rightarrow> error + (reservation_reply \<times> world)" where
  "submit_reservation utc_timestamp now w payload =
     (let payment_ref =
            (if pay_now payload = Some True then Some (''PAY-'' @ str_int utc_timestamp) else None);
          data = (ReservationRequest_model_dump payload)
                   (''payment_reference'' \<mapsto> opt_val PStr payment_ref)
      in case create_document now w (collection_name Reservation_cls) data of
           Inl e \<Rightarrow> Inl e
         | Inr (r, w') \<Rightarrow>
             Inr (\<lparr>reservation_reply.status = ''ok'', reference = r,
                   reservation_reply.payment_reference = payment_ref\<rparr>, w'))"

subsection \<open>\<open>POST /api/analytics\<close>\<close>

record analytics_reply =
  status :: string
  ref :: nat

text \<open>
  \<open>client_host\<close> is \<open>request.client.host\<close>, or \<open>None\<close> when the request has no client;
  \<open>utcnow_isoformat\<close> is the value of \<open>datetime.utcnow().isoformat()\<close> at the call.
\<close>

definition track_analytics ::
  "string \<Rightarrow> datetime \<Rightarrow> world \<Rightarrow> AnalyticsEvent \<Rightarrow> string option \<Rightarrow> error + (analytics_reply \<times> world)" where
  "track_analytics utcnow_isoformat now w event client_host =
     (let data = (AnalyticsEvent_model_dump event)
                   (''ip'' \<mapsto> opt_val PStr client_host,
                    ''received_at'' \<mapsto> PStr utcnow_isoformat)
      in case create_document now w (collection_name AnalyticsEvent_cls) data of
           Inl e \<Rightarrow> Inl e
         | Inr (r, w') \<Rightarrow> Inr (\<lparr>analytics_reply.status = ''ok'', ref = r\<rparr>, w'))"

subsection \<open>\<open>POST /admin/import-menu\<close>\<close>

text \<open>
  The loop over \<open>payload.items\<close>: the \<open>k\<close>-th reading of the clock is \<open>utcnow k\<close>, and
  every item takes two readings. \<open>datetime.utcnow()\<close> gives offset-naive values.
\<close>

fun stamp_items :: "(nat \<Rightarrow> nat) \<Rightarrow> nat \<Rightarrow> MenuItem list \<Rightarrow> doc list" where
  "stamp_items utcnow k [] = []"
| "stamp_items utcnow k (it # its) =
     (MenuItem_model_dump it)
       (''created_at'' \<mapsto> PDatetime (Naive (utcnow k)),
        ''updated_at'' \<mapsto> PDatetime (Naive (utcnow (Suc k))))
     # stamp_items utcnow (Suc (Suc k)) its"

definition import_menu :: "(nat \<Rightarrow> nat) \<Rightarrow> world \<Rightarrow> MenuItem list \<Rightarrow> error + (string \<times> world)" where
  "import_menu utcnow w items =
     (case db w of
        None \<Rightarrow> Inl (HTTPException 500 ''Database not available'')
      | Some d \<Rightarrow>
          (let docs = stamp_items utcnow 0 items;
               message = ''Imported '' @ str_nat (length docs) @ '' menu items''
           in if docs \<noteq> []
              then (case insert_many d (collection_name MenuItem_cls) docs of
                      Inl e \<Rightarrow> Inl e
                    | Inr d' \<Rightarrow> Inr (message, w\<lparr>db := Some d'\<rparr>))
              else Inr (message, w)))"

subsection \<open>\<open>GET /admin/reservations\<close>\<close>








subsection \<open>\<open>GET /test\<close>\<close>

record snapshot =
  backend :: ustring
  database :: ustring
  database_url :: "ustring option"
  database_name :: "ustring option"
  connection_status :: ustring
  collections :: "string list"

text \<open>The marks \<open>U+2705\<close>, \<open>U+274C\<close> and \<open>U+26A0 U+FE0F\<close> that start the status texts.\<close>

definition check_mark :: ustring where
  "check_mark = [0x2705]"

definition cross_mark :: ustring where
  "cross_mark = [0x274C]"

definition warning_sign :: ustring where
  "warning_sign = [0x26A0, 0xFE0F]"

text \<open>\<open>os.getenv(k)\<close> as a condition: the variable is set to a non-empty string.\<close>

definition getenv_truthy :: "world \<Rightarrow> string \<Rightarrow> bool" where
  "getenv_truthy w k = (case env w k of None \<Rightarrow> False | Some v \<Rightarrow> v \<noteq> [])"

definition set_or_not :: "bool \<Rightarrow> ustring" where
  "set_or_not b = (if b then check_mark @ asc '' Set'' else cross_mark @ asc '' Not Set'')"

text \<open>
  \<open>db.list_collection_names()\<close>: the names, or the text of the exception the driver
  raises.
\<close>

definition list_collection_names :: "Database \<Rightarrow> ustring + string list" where
  "list_collection_names d =
     (case fault d of Some msg \<Rightarrow> Inl msg | None \<Rightarrow> Inr (map fst (colls d)))"

text \<open>
  The handler. Inside the outer \<open>try\<close> only \<open>list_collection_names\<close> can raise, and it
  is caught by the inner \<open>except\<close>; the outer \<open>except\<close> branch has no path to it and is
  not written. The two assignments after the \<open>try\<close> overwrite \<open>database_url\<close> and
  \<open>database_name\<close>.
\<close>

definition test_database :: "world \<Rightarrow> snapshot" where
  "test_database w =
     (let response =
            \<lparr>backend = check_mark @ asc '' Running'',
             database = cross_mark @ asc '' Not Available'',
             database_url = None,
             database_name = None,
             connection_status = asc ''Not Connected'',
             collections = []\<rparr>;
          response =
            (case db w of
               Some d \<Rightarrow>
                 (let response =
                        response\<lparr>database := check_mark @ asc '' Available'',
                                 database_url := Some (set_or_not (getenv_truthy w ''DATABASE_URL'')),
                                 database_name := Some (asc (db_name d)),
                                 connection_status := asc ''Connected''\<rparr>
                  in case list_collection_names d of
                       Inr names \<Rightarrow>
                         response\<lparr>collections := take 10 names,
                                  database := check_mark @ asc '' Connected & Working''\<rparr>
                     | Inl e \<Rightarrow>
                         response\<lparr>database :=
                                    warning_sign @ asc ''  Connected but Error: '' @ take 50 e\<rparr>)
             | None \<Rightarrow>
                 response\<lparr>database := warning_sign @ asc ''  Available but not initialized''\<rparr>)
      in response\<lparr>database_url := Some (set_or_not (getenv_truthy w ''DATABASE_URL'')),
                  database_name := Some (set_or_not (getenv_truthy w ''DATABASE_NAME''))\<rparr>)"

section \<open>Example data\<close>

text \<open>Concrete inputs on which the properties below are exercised.\<close>

definition margherita :: MenuItem where
  "margherita =
     \<lparr>MenuItem.name = ''Margherita'', MenuItem.description = Some ''Tomato and basil'',
      price = 12.5, category = ''Pizzas'', image_url = None, featured = True,
      vegetarian = True\<rparr>"

definition tiramisu :: MenuItem where
  "tiramisu =
     \<lparr>MenuItem.name = ''Tiramisu'', MenuItem.description = None,
      price = 7, category = ''Desserts'', image_url = None, featured = False,
      vegetarian = True\<rparr>"

text \<open>A connected store that already holds one menu item.\<close>

definition menu_world :: world where
  "menu_world =
     \<lparr>db = Some \<lparr>db_name = ''eclat'',
                  colls = [(''menuitem'',
                            [(MenuItem_model_dump tiramisu)
                               (''created_at'' \<mapsto> PDatetime (Naive 5), ''updated_at'' \<mapsto> PDatetime (Naive 5),
                                ''_id'' \<mapsto> PObjectId 0)])],
                  next_oid = 1, fault = None\<rparr>,
      env = [''DATABASE_URL'' \<mapsto> ''mongodb://localhost'', ''DATABASE_NAME'' \<mapsto> ''eclat'']\<rparr>"

text \<open>A stored record without what the server added: \<open>_id\<close> and the two timestamps.\<close>

definition unstamped :: "doc \<Rightarrow> doc" where
  "unstamped d = d(''_id'' := None, ''created_at'' := None, ''updated_at'' := None)"

text \<open>Two stored specials, the second one switched off.\<close>

definition happy_hour_doc :: doc where
  "happy_hour_doc =
     [''title'' \<mapsto> PStr ''Happy hour'', ''discount_percent'' \<mapsto> PInt 20,
      ''active'' \<mapsto> PBool True, ''_id'' \<mapsto> PObjectId 2]"

definition winter_menu_doc :: doc where
  "winter_menu_doc =
     [''title'' \<mapsto> PStr ''Winter menu'', ''description'' \<mapsto> PNone,
      ''active'' \<mapsto> PBool False, ''_id'' \<mapsto> PObjectId 3]"

definition happy_hour :: Special where
  "happy_hour =
     \<lparr>title = ''Happy hour'', Special.description = None, discount_percent = Some 20,
      valid_until = None, hero_image_url = None, cta_text = Some ''Reserve Now'',
      active = True\<rparr>"

definition winter_menu :: Special where
  "winter_menu =
     \<lparr>title = ''Winter menu'', Special.description = None, discount_percent = None,
      valid_until = None, hero_image_url = None, cta_text = Some ''Reserve Now'',
      active = False\<rparr>"

text \<open>A connected store with a featured and a plain menu item and the two specials.\<close>

definition content_world :: world where
  "content_world =
     \<lparr>db = Some \<lparr>db_name = ''eclat'',
                  colls = [(''menuitem'',
                            [(MenuItem_model_dump margherita)
                               (''created_at'' \<mapsto> PDatetime (Naive 5), ''updated_at'' \<mapsto> PDatetime (Naive 6),
                                ''_id'' \<mapsto> PObjectId 0),
                             (MenuItem_model_dump tiramisu)
                               (''created_at'' \<mapsto> PDatetime (Naive 7), ''updated_at'' \<mapsto> PDatetime (Naive 8),
                                ''_id'' \<mapsto> PObjectId 1)]),
                           (''special'', [happy_hour_doc, winter_menu_doc])],
                  next_oid = 4, fault = None\<rparr>,
      env = Map.empty\<rparr>"

text \<open>A reservation request and an analytics event.\<close>

definition table_for_two :: ReservationRequest where
  "table_for_two =
     \<lparr>Reservation.name = ''Ada'', email = ''ada@example.org'', phone = None,
      date = ''2026-11-04'', time = ''19:30'', guests = 2, notes = None, paid = False,
      Reservation.payment_reference = None, pay_now = Some True\<rparr>"

definition page_view :: AnalyticsEvent where
  "page_view =
     \<lparr>type = ''page_view'', path = Some ''/menu'', metadata = None, user_agent = None,
      ip = Some ''10.0.0.1''\<rparr>"

text \<open>No store at all, and a store whose server does not answer.\<close>

definition disconnected_world :: world where
  "disconnected_world = \<lparr>db = None, env = [''DATABASE_URL'' \<mapsto> ''mongodb://localhost'']\<rparr>"

definition faulty_world :: world where
  "faulty_world =
     \<lparr>db = Some \<lparr>db_name = ''eclat'', colls = [], next_oid = 0,
                  fault = Some (asc ''timed out: '' @ replicate 60 46)\<rparr>,
      env = [''DATABASE_URL'' \<mapsto> ''mongodb://localhost'', ''DATABASE_NAME'' \<mapsto> '''']\<rparr>"









section \<open>Properties\<close>

subsection \<open>Collection names\<close>

text \<open>
  Claim C3. The collection name of every entity schema is exactly the lowercase of its
  class name: \<open>MenuItem\<close> is stored under \<open>menuitem\<close>, and so on for each model class of
  \<open>schemas.py\<close>.
\<close>

theorem collection_name_lowercase:
  "collection_name MenuItem_cls = ''menuitem'' \<and>
   collection_name Special_cls = ''special'' \<and>
   collection_name GalleryImage_cls = ''galleryimage'' \<and>
   collection_name Testimonial_cls = ''testimonial'' \<and>
   collection_name ContactMessage_cls = ''contactmessage'' \<and>
   collection_name Reservation_cls = ''reservation'' \<and>
   collection_name AdminUser_cls = ''adminuser'' \<and>
   collection_name AnalyticsEvent_cls = ''analyticsevent''"
  by code_simp

lemma collection_name_MenuItem: "collection_name MenuItem_cls = ''menuitem''"
  by code_simp

lemma collection_name_Special: "collection_name Special_cls = ''special''"
  by code_simp

lemma collection_name_Reservation: "collection_name Reservation_cls = ''reservation''"
  by code_simp

lemma collection_name_AnalyticsEvent: "collection_name AnalyticsEvent_cls = ''analyticsevent''"
  by code_simp

subsection \<open>Facts about the store and the list loop\<close>

lemma coll_docs_update:
  "coll_docs (d\<lparr>colls := AList.update c xs (colls d), next_oid := n\<rparr>) c' =
     (if c' = c then xs else coll_docs d c')"
  by (simp add: coll_docs_def update_conv)

lemma matches_nil: "matches [] d"
  by (simp add: matches_def)

lemma clean_docs_append:
  "clean_docs v (xs @ ys) =
     (case clean_docs v xs of
        Inl e \<Rightarrow> Inl e
      | Inr a \<Rightarrow> (case clean_docs v ys of Inl e \<Rightarrow> Inl e | Inr b \<Rightarrow> Inr (a @ b)))"
  by (induction xs) (auto split: sum.splits)

subsection \<open>Menu import and listing\<close>

lemma MenuItem_model_dump_no_id: "MenuItem_model_dump it ''_id'' = None"
  by (simp add: MenuItem_model_dump_def)

lemma MenuItem_validate_stamped:
  "0 \<le> price it \<Longrightarrow>
   MenuItem_validate
     ((MenuItem_model_dump it)(''created_at'' \<mapsto> a, ''updated_at'' \<mapsto> b, ''_id'' := None)) =
   Inr it"
  by (simp add: MenuItem_validate_def MenuItem_fields_def MenuItem_model_dump_def required_def
      optional_def with_default_def as_str_def as_float_def as_bool_def opt_val_def
      split: option.splits)

lemma clean_docs_imported:
  "\<forall>it \<in> set items. 0 \<le> price it \<Longrightarrow>
   clean_docs MenuItem_validate (assign_ids k (stamp_items utcnow j items)) = Inr items"
proof (induction items arbitrary: k j)
  case Nil
  then show ?case by simp
next
  case (Cons it items)
  have "0 \<le> price it" using Cons.prems by simp
  then show ?case using Cons
    by (simp add: MenuItem_model_dump_no_id MenuItem_validate_stamped)
qed

lemma stamp_items_empty: "stamp_items utcnow k items = [] \<longleftrightarrow> items = []"
  by (cases items) simp_all

lemma length_stamp_items: "length (stamp_items utcnow k items) = length items"
  by (induction items arbitrary: k) simp_all

lemma length_assign_ids: "length (assign_ids k ds) = length ds"
  by (induction ds arbitrary: k) simp_all

text \<open>
  Claim C1. Every menu item with a price of at least 0 that is imported through
  \<open>POST /admin/import-menu\<close> comes back from \<open>GET /api/menu\<close> without filters as a
  record equal to the payload in every field: where the listing answered \<open>old\<close> before
  the import, it answers \<open>old\<close> followed by the imported items after it. The stamped
  \<open>created_at\<close> and \<open>updated_at\<close> and the store's \<open>_id\<close> are not part of the records.
\<close>

theorem import_then_list:
  assumes valid: "\<forall>it \<in> set items. 0 \<le> price it"
    and imported: "import_menu utcnow w items = Inr (message, w')"
    and before: "get_menu w None None = Inr old"
  shows "get_menu w' None None = Inr (old @ items)"
proof (cases "items = []")
  case True
  then have "w' = w"
    using imported by (auto simp: import_menu_def Let_def split: option.splits)
  then show ?thesis
    using before True by simp
next
  case False
  then have ne: "stamp_items utcnow 0 items \<noteq> []"
    by (simp add: stamp_items_empty)
  from imported ne obtain d where d: "db w = Some d" and nf: "fault d = None"
    and w': "w' = w\<lparr>db := Some (d\<lparr>colls := AList.update ''menuitem''
                (coll_docs d ''menuitem'' @ assign_ids (next_oid d) (stamp_items utcnow 0 items))
                (colls d),
              next_oid := next_oid d + length (stamp_items utcnow 0 items)\<rparr>)\<rparr>"
    by (auto simp: import_menu_def Let_def insert_many_def collection_name_MenuItem
        split: option.splits)
  have old: "clean_docs MenuItem_validate (coll_docs d ''menuitem'') = Inr old"
    using before d nf
    by (simp add: get_menu_def get_documents_def collection_name_MenuItem menu_filter_def
        matches_nil)
  show ?thesis
    using old clean_docs_imported[OF valid]
    by (simp add: get_menu_def get_documents_def collection_name_MenuItem menu_filter_def
        matches_nil w' nf coll_docs_update clean_docs_append)
qed

theorem import_then_list_witness:
  "\<exists>message w'.
     import_menu (\<lambda>k. 100 + k) menu_world [margherita] = Inr (message, w') \<and>
     get_menu menu_world None None = Inr [tiramisu] \<and>
     get_menu w' None None = Inr [tiramisu, margherita]"
proof -
  have valid: "\<forall>it \<in> set [margherita]. 0 \<le> price it"
    by (simp add: margherita_def)
  obtain message w' where
    imported: "import_menu (\<lambda>k. 100 + k) menu_world [margherita] = Inr (message, w')"
    by (simp add: import_menu_def menu_world_def insert_many_def Let_def)
  have "0 \<le> price tiramisu"
    by (simp add: tiramisu_def)
  then have before: "get_menu menu_world None None = Inr [tiramisu]"
    by (simp add: get_menu_def get_documents_def collection_name_MenuItem menu_filter_def
        matches_nil menu_world_def coll_docs_def MenuItem_validate_stamped)
  from import_then_list[OF valid imported before] imported before show ?thesis
    by auto
qed

subsection \<open>Importing the same menu twice\<close>

lemma unstamped_stamped:
  "unstamped
     ((MenuItem_model_dump it)(''created_at'' \<mapsto> a, ''updated_at'' \<mapsto> b, ''_id'' \<mapsto> i)) =
   MenuItem_model_dump it"
  by (rule ext) (simp add: unstamped_def MenuItem_model_dump_def)

lemma unstamped_imported:
  "map unstamped (assign_ids k (stamp_items utcnow j items)) = map MenuItem_model_dump items"
  by (induction items arbitrary: k j) (simp_all add: MenuItem_model_dump_no_id unstamped_stamped)

lemma import_menu_available:
  assumes "db w = Some d" and "fault d = None"
  shows "\<exists>message d'. import_menu utcnow w items = Inr (message, w\<lparr>db := Some d'\<rparr>) \<and>
           fault d' = None \<and>
           coll_docs d' ''menuitem'' =
             coll_docs d ''menuitem'' @ assign_ids (next_oid d) (stamp_items utcnow 0 items)"
proof (cases "items = []")
  case True
  have "w\<lparr>db := Some d\<rparr> = w"
    using assms by simp
  then show ?thesis
    using assms True by (auto simp: import_menu_def Let_def intro!: exI[of _ d])
next
  case False
  let ?d' = "d\<lparr>colls := AList.update ''menuitem''
                (coll_docs d ''menuitem'' @ assign_ids (next_oid d) (stamp_items utcnow 0 items))
                (colls d),
              next_oid := next_oid d + length (stamp_items utcnow 0 items)\<rparr>"
  have "import_menu utcnow w items =
          Inr (''Imported '' @ str_nat (length (stamp_items utcnow 0 items)) @ '' menu items'',
               w\<lparr>db := Some ?d'\<rparr>)"
    using assms False
    by (simp add: import_menu_def Let_def insert_many_def collection_name_MenuItem
        stamp_items_empty)
  moreover have "fault ?d' = None"
    using assms by simp
  moreover have "coll_docs ?d' ''menuitem'' =
      coll_docs d ''menuitem'' @ assign_ids (next_oid d) (stamp_items utcnow 0 items)"
    by (simp add: coll_docs_update)
  ultimately show ?thesis
    by blast
qed

text \<open>
  Claim C8. Running \<open>POST /admin/import-menu\<close> twice with the same \<open>N\<close> items on a
  connected store succeeds both times and inserts \<open>N\<close> records each time: nothing is
  deduplicated or updated in place, and the collection afterwards holds, after what it
  held before, the payload twice (records compared without \<open>_id\<close> and timestamps).
\<close>

theorem import_twice:
  assumes "db w = Some d" and "fault d = None"
  shows "\<exists>m1 w1 m2 w2.
           import_menu utcnow1 w items = Inr (m1, w1) \<and>
           import_menu utcnow2 w1 items = Inr (m2, w2) \<and>
           length (stored w1 ''menuitem'') = length (stored w ''menuitem'') + length items \<and>
           length (stored w2 ''menuitem'') = length (stored w1 ''menuitem'') + length items \<and>
           map unstamped (stored w2 ''menuitem'') =
             map unstamped (stored w ''menuitem'') @
             map MenuItem_model_dump items @ map MenuItem_model_dump items"
proof -
  from import_menu_available[OF assms, of utcnow1 items] obtain m1 d1 where
    i1: "import_menu utcnow1 w items = Inr (m1, w\<lparr>db := Some d1\<rparr>)" and f1: "fault d1 = None"
    and c1: "coll_docs d1 ''menuitem'' =
               coll_docs d ''menuitem'' @ assign_ids (next_oid d) (stamp_items utcnow1 0 items)"
    by blast
  have db1: "db (w\<lparr>db := Some d1\<rparr>) = Some d1"
    by simp
  from import_menu_available[OF db1 f1, of utcnow2 items] obtain m2 d2 where
    i2: "import_menu utcnow2 (w\<lparr>db := Some d1\<rparr>) items = Inr (m2, w\<lparr>db := Some d2\<rparr>)"
    and c2: "coll_docs d2 ''menuitem'' =
               coll_docs d1 ''menuitem'' @ assign_ids (next_oid d1) (stamp_items utcnow2 0 items)"
    by auto
  show ?thesis
    using i1 i2 c1 c2 assms
    by (simp add: stored_def length_assign_ids length_stamp_items unstamped_imported)
qed

theorem import_twice_witness:
  "\<exists>m1 w1 m2 w2.
     import_menu (\<lambda>k. 100 + k) menu_world [margherita, tiramisu] = Inr (m1, w1) \<and>
     import_menu (\<lambda>k. 200 + k) w1 [margherita, tiramisu] = Inr (m2, w2) \<and>
     length (stored menu_world ''menuitem'') = 1 \<and>
     length (stored w1 ''menuitem'') = 3 \<and>
     length (stored w2 ''menuitem'') = 5"
proof -
  have a: "db menu_world = Some (the (db menu_world))"
    by (simp add: menu_world_def)
  have b: "fault (the (db menu_world)) = None"
    by (simp add: menu_world_def)
  have c: "length (stored menu_world ''menuitem'') = 1"
    by (simp add: stored_def menu_world_def coll_docs_def)
  from import_twice[OF a b, of "\<lambda>k. 100 + k" "[margherita, tiramisu]" "\<lambda>k. 200 + k"]
  obtain m1 w1 m2 w2 where
    "import_menu (\<lambda>k. 100 + k) menu_world [margherita, tiramisu] = Inr (m1, w1)"
    "import_menu (\<lambda>k. 200 + k) w1 [margherita, tiramisu] = Inr (m2, w2)"
    "length (stored w1 ''menuitem'') = length (stored menu_world ''menuitem'') + 2"
    "length (stored w2 ''menuitem'') = length (stored w1 ''menuitem'') + 2"
    by auto
  then show ?thesis
    using c by auto
qed

subsection \<open>Filters of the list handlers\<close>

lemma clean_docs_length: "clean_docs v ds = Inr out \<Longrightarrow> length out = length ds"
  by (induction ds arbitrary: out) (auto split: sum.splits)

lemma clean_docs_member:
  "clean_docs v ds = Inr out \<Longrightarrow> x \<in> set out \<Longrightarrow>
   \<exists>d \<in> set ds. v (d(''_id'' := None)) = Inr x"
  by (induction ds arbitrary: out) (auto split: sum.splits)

lemma MenuItem_validate_featured:
  "MenuItem_validate d = Inr it \<Longrightarrow> d ''featured'' = Some (PBool b) \<Longrightarrow> featured it = b"
  by (auto simp: MenuItem_validate_def MenuItem_fields_def with_default_def as_bool_def
      split: option.splits Option.bind_splits if_splits)

lemma Special_validate_active:
  "Special_validate d = Inr sp \<Longrightarrow> d ''active'' = Some (PBool b) \<Longrightarrow> active sp = b"
  by (auto simp: Special_validate_def Special_fields_def with_default_def as_bool_def
      split: option.splits Option.bind_splits if_splits)

lemma get_documents_available:
  "db w = Some d \<Longrightarrow> fault d = None \<Longrightarrow>
   get_documents w c flt None = filter (matches flt) (coll_docs d c)"
  by (simp add: get_documents_def)

lemma get_documents_matches:
  "x \<in> set (get_documents w c flt limit) \<Longrightarrow> matches flt x"
  by (auto simp: get_documents_def Let_def split: option.splits dest!: in_set_takeD)

lemma matches_single: "matches [(k, v)] = (\<lambda>x. x k = Some v)"
  by (rule ext) (simp add: matches_def)

lemma content_world_db: "db content_world = Some (the (db content_world))"
  by (simp add: content_world_def)

lemma content_world_fault: "fault (the (db content_world)) = None"
  by (simp add: content_world_def)

lemma content_world_menu:
  "coll_docs (the (db content_world)) ''menuitem'' =
     [(MenuItem_model_dump margherita)
        (''created_at'' \<mapsto> PDatetime (Naive 5), ''updated_at'' \<mapsto> PDatetime (Naive 6), ''_id'' \<mapsto> PObjectId 0),
      (MenuItem_model_dump tiramisu)
        (''created_at'' \<mapsto> PDatetime (Naive 7), ''updated_at'' \<mapsto> PDatetime (Naive 8), ''_id'' \<mapsto> PObjectId 1)]"
  by (simp add: content_world_def coll_docs_def)

lemma content_world_special:
  "coll_docs (the (db content_world)) ''special'' = [happy_hour_doc, winter_menu_doc]"
  by (simp add: content_world_def coll_docs_def)

lemma validate_happy_hour: "Special_validate (happy_hour_doc(''_id'' := None)) = Inr happy_hour"
  by (simp add: Special_validate_def Special_fields_def happy_hour_doc_def happy_hour_def
      required_def optional_def with_default_def as_str_def as_int_def as_bool_def
      as_datetime_def in_percent_def)

lemma validate_winter_menu:
  "Special_validate (winter_menu_doc(''_id'' := None)) = Inr winter_menu"
  by (simp add: Special_validate_def Special_fields_def winter_menu_doc_def winter_menu_def
      required_def optional_def with_default_def as_str_def as_int_def as_bool_def
      as_datetime_def in_percent_def)

lemma matches_pair:
  "matches [(k, v), (k', v')] = (\<lambda>x. x k = Some v \<and> x k' = Some v')"
  by (rule ext) (simp add: matches_def)

text \<open>
  Claim C10. On a connected store, \<open>GET /api/menu\<close> with \<open>category\<close> omitted or empty
  applies no category filter: the empty string answers what the omitted parameter
  answers, whatever \<open>featured\<close> is, and with neither parameter every stored item is
  listed. A non-empty \<open>category\<close> filters. \<open>featured\<close> filters whenever it is given,
  with or without a category: \<open>featured=b\<close> lists the stored items whose \<open>featured\<close>
  field is \<open>b\<close> (within the category, when one is given), for \<open>b\<close> true and for \<open>b\<close>
  false, and every listed item has \<open>featured = b\<close>; without \<open>featured\<close> the listing
  does not look at that field.
\<close>

theorem get_menu_filters:
  assumes "db w = Some d" and "fault d = None"
  shows "get_menu w (Some []) q_featured = get_menu w None q_featured \<and>
         get_menu w None None = clean_docs MenuItem_validate (coll_docs d ''menuitem'') \<and>
         (\<forall>c. c \<noteq> [] \<longrightarrow>
              get_menu w (Some c) None =
                clean_docs MenuItem_validate
                  (filter (\<lambda>x. x ''category'' = Some (PStr c)) (coll_docs d ''menuitem''))) \<and>
         (\<forall>b. get_menu w None (Some b) =
                clean_docs MenuItem_validate
                  (filter (\<lambda>x. x ''featured'' = Some (PBool b)) (coll_docs d ''menuitem''))) \<and>
         (\<forall>c b. c \<noteq> [] \<longrightarrow>
              get_menu w (Some c) (Some b) =
                clean_docs MenuItem_validate
                  (filter (\<lambda>x. x ''category'' = Some (PStr c) \<and> x ''featured'' = Some (PBool b))
                     (coll_docs d ''menuitem''))) \<and>
         (\<forall>q b out. get_menu w q (Some b) = Inr out \<longrightarrow> (\<forall>it \<in> set out. featured it = b))"
proof -
  have f: "featured it = b"
    if "get_menu w q (Some b) = Inr out" and "it \<in> set out" for q b out it
  proof -
    from that obtain x where
      x: "x \<in> set (get_documents w ''menuitem'' (menu_filter q (Some b)) None)"
      and v: "MenuItem_validate (x(''_id'' := None)) = Inr it"
      by (auto simp: get_menu_def collection_name_MenuItem dest: clean_docs_member)
    from get_documents_matches[OF x] have "(x(''_id'' := None)) ''featured'' = Some (PBool b)"
      by (simp add: matches_def menu_filter_def)
    with v show ?thesis
      by (rule MenuItem_validate_featured)
  qed
  have g: "get_menu w q_category q_featured =
             clean_docs MenuItem_validate
               (filter (matches (menu_filter q_category q_featured)) (coll_docs d ''menuitem''))"
    for q_category q_featured
    by (simp add: get_menu_def collection_name_MenuItem get_documents_available[OF assms])
  show ?thesis
    using f by (auto simp: g menu_filter_def matches_nil matches_single matches_pair)
qed

theorem get_menu_filters_witness:
  "get_menu content_world (Some []) None = Inr [margherita, tiramisu] \<and>
   get_menu content_world None None = Inr [margherita, tiramisu] \<and>
   get_menu content_world (Some ''Desserts'') None = Inr [tiramisu] \<and>
   get_menu content_world None (Some True) = Inr [margherita] \<and>
   get_menu content_world None (Some False) = Inr [tiramisu] \<and>
   get_menu content_world (Some ''Pizzas'') (Some True) = Inr [margherita] \<and>
   get_menu content_world (Some ''Pizzas'') (Some False) = Inr []"
proof -
  have p: "0 \<le> price margherita" "0 \<le> price tiramisu"
    by (simp_all add: margherita_def tiramisu_def)
  have m: "MenuItem_model_dump margherita ''featured'' = Some (PBool True)"
    "MenuItem_model_dump margherita ''category'' = Some (PStr ''Pizzas'')"
    by (simp_all add: MenuItem_model_dump_def margherita_def)
  have t: "MenuItem_model_dump tiramisu ''featured'' = Some (PBool False)"
    "MenuItem_model_dump tiramisu ''category'' = Some (PStr ''Desserts'')"
    by (simp_all add: MenuItem_model_dump_def tiramisu_def)
  from get_menu_filters[OF content_world_db content_world_fault, of None] show ?thesis
    using p m t by (simp add: content_world_menu MenuItem_validate_stamped)
qed

text \<open>
  Claim C2. On a connected store, \<open>GET /api/specials\<close> without the \<open>active\<close> parameter
  lists the stored specials whose \<open>active\<close> field is true, and every listed record has
  \<open>active\<close> true; with \<open>active=false\<close> it lists every stored special, one record for
  each, whatever its \<open>active\<close> field.
\<close>

theorem specials_default_and_false:
  assumes "db w = Some d" and "fault d = None"
  shows "specials_route w None =
           clean_docs Special_validate
             (filter (\<lambda>x. x ''active'' = Some (PBool True)) (coll_docs d ''special'')) \<and>
         (\<forall>out. specials_route w None = Inr out \<longrightarrow> (\<forall>sp \<in> set out. active sp)) \<and>
         specials_route w (Some False) = clean_docs Special_validate (coll_docs d ''special'') \<and>
         (\<forall>out. specials_route w (Some False) = Inr out \<longrightarrow>
                length out = length (coll_docs d ''special''))"
proof -
  have a: "active sp" if "specials_route w None = Inr out" and "sp \<in> set out" for out sp
  proof -
    from that obtain x where
      x: "x \<in> set (get_documents w ''special'' [(''active'', PBool True)] None)"
      and v: "Special_validate (x(''_id'' := None)) = Inr sp"
      by (auto simp: specials_route_def get_specials_def collection_name_Special
          dest: clean_docs_member)
    from get_documents_matches[OF x] have "(x(''_id'' := None)) ''active'' = Some (PBool True)"
      by (simp add: matches_def)
    with v show ?thesis
      using Special_validate_active by blast
  qed
  show ?thesis
    using a
    by (auto simp: specials_route_def get_specials_def collection_name_Special matches_nil
        matches_single get_documents_available[OF assms] dest: clean_docs_length)
qed

theorem specials_default_and_false_witness:
  "specials_route content_world None = Inr [happy_hour] \<and>
   specials_route content_world (Some False) = Inr [happy_hour, winter_menu] \<and>
   active happy_hour \<and> \<not> active winter_menu"
proof -
  have a: "happy_hour_doc ''active'' = Some (PBool True)"
    "winter_menu_doc ''active'' = Some (PBool False)"
    by (simp_all add: happy_hour_doc_def winter_menu_doc_def)
  from specials_default_and_false[OF content_world_db content_world_fault] show ?thesis
    using a
    by (simp add: content_world_special validate_happy_hour validate_winter_menu
        happy_hour_def winter_menu_def)
qed

subsection \<open>Reservations and analytics\<close>

lemma create_document_available:
  assumes "db w = Some d" and "fault d = None"
  shows "\<exists>w'. create_document now w c payload = Inr (next_oid d, w') \<and>
           stored w' c =
             stored w c @ [(stamp now payload)(''_id'' \<mapsto> PObjectId (next_oid d))]"
  using assms by (simp add: create_document_def stored_def coll_docs_update)

lemma str_int_example: "str_int 1762266000 = ''1762266000''"
  by (simp add: str_int_def str_nat.simps digit_def)

text \<open>
  Claim C4. A reservation submitted to a connected store is answered, and the answer's
  \<open>payment_reference\<close> is a string (\<open>PAY-\<close> and the timestamp) when \<open>pay_now\<close> is true and
  null when \<open>pay_now\<close> is false, null or omitted (an omitted \<open>pay_now\<close> is \<open>False\<close> in the
  validated request).
\<close>

theorem submit_reservation_payment_reference:
  assumes "db w = Some d" and "fault d = None"
  shows "\<exists>reply w'.
           submit_reservation utc_timestamp now w payload = Inr (reply, w') \<and>
           reservation_reply.payment_reference reply =
             (if pay_now payload = Some True then Some (''PAY-'' @ str_int utc_timestamp)
              else None)"
proof -
  let ?ref = "if pay_now payload = Some True then Some (''PAY-'' @ str_int utc_timestamp)
              else None"
  let ?data = "(ReservationRequest_model_dump payload)
      (''payment_reference'' \<mapsto> opt_val PStr ?ref)"
  from create_document_available[OF assms, of now "''reservation''" ?data] obtain w' where
    "create_document now w ''reservation'' ?data = Inr (next_oid d, w')"
    by blast
  then have "submit_reservation utc_timestamp now w payload =
          Inr (\<lparr>reservation_reply.status = ''ok'', reference = next_oid d,
                reservation_reply.payment_reference = ?ref\<rparr>, w')"
    by (simp add: submit_reservation_def Let_def collection_name_Reservation)
  then show ?thesis
    by simp
qed

theorem submit_reservation_payment_reference_witness:
  "(\<exists>reply w'.
      submit_reservation 1762266000 (Naive 9) content_world table_for_two = Inr (reply, w') \<and>
      reservation_reply.payment_reference reply = Some ''PAY-1762266000'') \<and>
   (\<exists>reply w'.
      submit_reservation 1762266000 (Naive 9) content_world (table_for_two\<lparr>pay_now := Some False\<rparr>) =
        Inr (reply, w') \<and>
      reservation_reply.payment_reference reply = None)"
proof -
  have t: "pay_now table_for_two = Some True"
    by (simp add: table_for_two_def)
  from submit_reservation_payment_reference[OF content_world_db content_world_fault,
      of 1762266000 "Naive 9" table_for_two]
    submit_reservation_payment_reference[OF content_world_db content_world_fault,
      of 1762266000 "Naive 9" "table_for_two\<lparr>pay_now := Some False\<rparr>"]
  show ?thesis
    using t by (simp add: str_int_example)
qed

text \<open>
  Claim C9. The record persisted for a reservation submitted to a connected store holds
  the \<open>pay_now\<close> flag of the request as a field of its own, next to the fields the
  \<open>Reservation\<close> schema declares.
\<close>

theorem submit_reservation_stores_pay_now:
  assumes "db w = Some d" and "fault d = None"
  shows "\<exists>reply w' x.
           submit_reservation utc_timestamp now w payload = Inr (reply, w') \<and>
           stored w' ''reservation'' = stored w ''reservation'' @ [x] \<and>
           x ''pay_now'' = Some (opt_val PBool (pay_now payload)) \<and>
           x ''name'' = Some (PStr (Reservation.name payload)) \<and>
           x ''email'' = Some (PStr (email payload)) \<and>
           x ''phone'' = Some (opt_val PStr (phone payload)) \<and>
           x ''date'' = Some (PStr (date payload)) \<and>
           x ''time'' = Some (PStr (time payload)) \<and>
           x ''guests'' = Some (PInt (guests payload)) \<and>
           x ''notes'' = Some (opt_val PStr (notes payload)) \<and>
           x ''paid'' = Some (PBool (paid payload)) \<and>
           x ''payment_reference'' =
             Some (opt_val PStr (reservation_reply.payment_reference reply))"
proof -
  let ?data = "(ReservationRequest_model_dump payload)
      (''payment_reference'' \<mapsto>
         opt_val PStr (if pay_now payload = Some True then Some (''PAY-'' @ str_int utc_timestamp)
                       else None))"
  from create_document_available[OF assms, of now "''reservation''" ?data] obtain w' where
    c: "create_document now w ''reservation'' ?data = Inr (next_oid d, w')"
    and s: "stored w' ''reservation'' =
              stored w ''reservation'' @ [(stamp now ?data)(''_id'' \<mapsto> PObjectId (next_oid d))]"
    by blast
  have "submit_reservation utc_timestamp now w payload =
          Inr (\<lparr>reservation_reply.status = ''ok'', reference = next_oid d,
                reservation_reply.payment_reference =
                  (if pay_now payload = Some True then Some (''PAY-'' @ str_int utc_timestamp)
                   else None)\<rparr>, w')"
    using c by (simp add: submit_reservation_def Let_def collection_name_Reservation)
  moreover have "((stamp now ?data)(''_id'' \<mapsto> PObjectId (next_oid d))) k = ?data k"
    if "k \<noteq> ''_id''" "k \<noteq> ''created_at''" "k \<noteq> ''updated_at''" for k
    using that by (simp add: stamp_def Let_def)
  ultimately show ?thesis
    using s by (simp add: ReservationRequest_model_dump_def)
qed

theorem submit_reservation_stores_pay_now_witness:
  "\<exists>reply w' x.
     submit_reservation 1762266000 (Naive 9) content_world table_for_two = Inr (reply, w') \<and>
     stored w' ''reservation'' = [x] \<and>
     x ''pay_now'' = Some (PBool True) \<and>
     x ''guests'' = Some (PInt 2)"
proof -
  have "stored content_world ''reservation'' = []"
    by (simp add: stored_def content_world_def coll_docs_def)
  with submit_reservation_stores_pay_now[OF content_world_db content_world_fault,
      of 1762266000 "Naive 9" table_for_two]
  show ?thesis
    by (auto simp: table_for_two_def opt_val_def)
qed

text \<open>
  Claim C5. The record persisted for an analytics event submitted to a connected store
  has an \<open>ip\<close> field and a \<open>received_at\<close> field that the server fills in, from the
  request's client address (null when the request has no client) and from the server
  clock; the \<open>ip\<close> the client wrote into the event has no effect on the outcome.
\<close>

theorem track_analytics_server_fields:
  assumes "db w = Some d" and "fault d = None"
  shows "\<exists>reply w' x.
           track_analytics utcnow_isoformat now w event client_host = Inr (reply, w') \<and>
           stored w' ''analyticsevent'' = stored w ''analyticsevent'' @ [x] \<and>
           x ''ip'' = Some (opt_val PStr client_host) \<and>
           x ''received_at'' = Some (PStr utcnow_isoformat) \<and>
           (\<forall>client_ip.
              track_analytics utcnow_isoformat now w (event\<lparr>ip := client_ip\<rparr>) client_host =
              track_analytics utcnow_isoformat now w event client_host)"
proof -
  let ?data = "(AnalyticsEvent_model_dump event)
      (''ip'' \<mapsto> opt_val PStr client_host, ''received_at'' \<mapsto> PStr utcnow_isoformat)"
  from create_document_available[OF assms, of now "''analyticsevent''" ?data] obtain w' where
    c: "create_document now w ''analyticsevent'' ?data = Inr (next_oid d, w')"
    and s: "stored w' ''analyticsevent'' =
              stored w ''analyticsevent'' @
                [(stamp now ?data)(''_id'' \<mapsto> PObjectId (next_oid d))]"
    by blast
  have "track_analytics utcnow_isoformat now w event client_host =
          Inr (\<lparr>analytics_reply.status = ''ok'', ref = next_oid d\<rparr>, w')"
    using c by (simp add: track_analytics_def Let_def collection_name_AnalyticsEvent)
  moreover have "((stamp now ?data)(''_id'' \<mapsto> PObjectId (next_oid d))) k = ?data k"
    if "k \<noteq> ''_id''" "k \<noteq> ''created_at''" "k \<noteq> ''updated_at''" for k
    using that by (simp add: stamp_def Let_def)
  moreover have "(AnalyticsEvent_model_dump (event\<lparr>ip := client_ip\<rparr>))
        (''ip'' \<mapsto> opt_val PStr client_host, ''received_at'' \<mapsto> PStr utcnow_isoformat) = ?data"
    for client_ip
    by (rule ext) (simp add: AnalyticsEvent_model_dump_def)
  ultimately show ?thesis
    using s by (simp add: track_analytics_def Let_def)
qed

theorem track_analytics_server_fields_witness:
  "\<exists>reply w' x.
     track_analytics ''2026-11-04T14:25:00'' (Naive 9) content_world page_view (Some ''203.0.113.7'') =
       Inr (reply, w') \<and>
     stored w' ''analyticsevent'' = [x] \<and>
     x ''ip'' = Some (PStr ''203.0.113.7'') \<and>
     x ''received_at'' = Some (PStr ''2026-11-04T14:25:00'') \<and>
     ip page_view = Some ''10.0.0.1''"
proof -
  have "stored content_world ''analyticsevent'' = []"
    by (simp add: stored_def content_world_def coll_docs_def)
  with track_analytics_server_fields[OF content_world_db content_world_fault,
      of "''2026-11-04T14:25:00''" "Naive 9" page_view "Some ''203.0.113.7''"]
  show ?thesis
    by (auto simp: page_view_def opt_val_def)
qed

subsection \<open>Diagnostics\<close>

lemma length_asc: "length (asc s) = length s"
  by (simp add: asc_def)

lemma test_database_cases:
  "test_database w =
     (case db w of
        None \<Rightarrow>
          \<lparr>backend = check_mark @ asc '' Running'',
           database = warning_sign @ asc ''  Available but not initialized'',
           database_url = Some (set_or_not (getenv_truthy w ''DATABASE_URL'')),
           database_name = Some (set_or_not (getenv_truthy w ''DATABASE_NAME'')),
           connection_status = asc ''Not Connected'',
           collections = []\<rparr>
      | Some d \<Rightarrow>
          (case fault d of
             Some msg \<Rightarrow>
               \<lparr>backend = check_mark @ asc '' Running'',
                database = warning_sign @ asc ''  Connected but Error: '' @ take 50 msg,
                database_url = Some (set_or_not (getenv_truthy w ''DATABASE_URL'')),
                database_name = Some (set_or_not (getenv_truthy w ''DATABASE_NAME'')),
                connection_status = asc ''Connected'',
                collections = []\<rparr>
           | None \<Rightarrow>
               \<lparr>backend = check_mark @ asc '' Running'',
                database = check_mark @ asc '' Connected & Working'',
                database_url = Some (set_or_not (getenv_truthy w ''DATABASE_URL'')),
                database_name = Some (set_or_not (getenv_truthy w ''DATABASE_NAME'')),
                connection_status = asc ''Connected'',
                collections = take 10 (map fst (colls d))\<rparr>))"
  by (simp add: test_database_def Let_def list_collection_names_def split: option.splits)

text \<open>
  Claim C7. \<open>GET /test\<close> answers with a snapshot in every state of the store and of
  the environment, the store absent or failing included (the handler is a total
  function: the one call that can raise is caught). Its status fields are strings:
  \<open>database_url\<close> and \<open>database_name\<close> are always one of the two texts for set and
  not set, decided by whether the variable is set to a non-empty string, so that two
  environments that agree on that give the same snapshot whatever the values are. The
  text of a driver error is cut to 50 characters after a fixed prefix, the whole
  \<open>database\<close> text is at most 75 characters long, and at most 10 collection names are
  reported.
\<close>

theorem test_database_snapshot:
  "backend (test_database w) = check_mark @ asc '' Running'' \<and>
   database_url (test_database w) = Some (set_or_not (getenv_truthy w ''DATABASE_URL'')) \<and>
   database_name (test_database w) = Some (set_or_not (getenv_truthy w ''DATABASE_NAME'')) \<and>
   length (database (test_database w)) \<le> 75 \<and>
   length (collections (test_database w)) \<le> 10 \<and>
   (db w = None \<longrightarrow>
      database (test_database w) = warning_sign @ asc ''  Available but not initialized'' \<and>
      connection_status (test_database w) = asc ''Not Connected'' \<and>
      collections (test_database w) = []) \<and>
   (\<forall>d msg. db w = Some d \<and> fault d = Some msg \<longrightarrow>
      database (test_database w) =
        warning_sign @ asc ''  Connected but Error: '' @ take 50 msg \<and>
      connection_status (test_database w) = asc ''Connected'') \<and>
   (\<forall>d. db w = Some d \<and> fault d = None \<longrightarrow>
      database (test_database w) = check_mark @ asc '' Connected & Working'' \<and>
      connection_status (test_database w) = asc ''Connected'' \<and>
      collections (test_database w) = take 10 (map fst (colls d))) \<and>
   (\<forall>w'. db w' = db w \<and>
      getenv_truthy w' ''DATABASE_URL'' = getenv_truthy w ''DATABASE_URL'' \<and>
      getenv_truthy w' ''DATABASE_NAME'' = getenv_truthy w ''DATABASE_NAME'' \<longrightarrow>
      test_database w = test_database w')"
proof (cases "db w")
  case None
  then show ?thesis
    by (simp add: test_database_cases length_asc warning_sign_def)
next
  case (Some d)
  show ?thesis
  proof (cases "fault d")
    case None
    with Some show ?thesis
      by (simp add: test_database_cases length_asc check_mark_def)
  next
    case (Some msg)
    with \<open>db w = Some d\<close> show ?thesis
      by (simp add: test_database_cases length_asc warning_sign_def)
  qed
qed

theorem test_database_snapshot_witness:
  "backend (test_database disconnected_world) = check_mark @ asc '' Running'' \<and>
   database (test_database disconnected_world) =
     warning_sign @ asc ''  Available but not initialized'' \<and>
   database_url (test_database disconnected_world) = Some (check_mark @ asc '' Set'') \<and>
   database_name (test_database disconnected_world) = Some (cross_mark @ asc '' Not Set'') \<and>
   connection_status (test_database disconnected_world) = asc ''Not Connected'' \<and>
   collections (test_database disconnected_world) = [] \<and>
   database (test_database faulty_world) =
     warning_sign @ asc ''  Connected but Error: '' @ take 50 (asc ''timed out: '' @ replicate 60 46) \<and>
   length (asc ''timed out: '' @ replicate 60 46) = 71 \<and>
   length (take 50 (asc ''timed out: '' @ replicate 60 46)) = 50 \<and>
   database_url (test_database faulty_world) = Some (check_mark @ asc '' Set'') \<and>
   database_name (test_database faulty_world) = Some (cross_mark @ asc '' Not Set'')"
proof -
  note s1 = test_database_snapshot[of disconnected_world]
  note s2 = test_database_snapshot[of faulty_world]
  have d: "db disconnected_world = None"
    by (simp add: disconnected_world_def)
  have f: "db faulty_world = Some (the (db faulty_world)) \<and>
           fault (the (db faulty_world)) = Some (asc ''timed out: '' @ replicate 60 46)"
    by (simp add: faulty_world_def)
  have e: "getenv_truthy disconnected_world ''DATABASE_URL''"
    "\<not> getenv_truthy disconnected_world ''DATABASE_NAME''"
    "getenv_truthy faulty_world ''DATABASE_URL''"
    "\<not> getenv_truthy faulty_world ''DATABASE_NAME''"
    by (simp_all add: getenv_truthy_def disconnected_world_def faulty_world_def)
  have a1: "backend (test_database disconnected_world) = check_mark @ asc '' Running''"
    using s1 by (rule conjunct1)
  have a2: "database_url (test_database disconnected_world) = Some (check_mark @ asc '' Set'')"
    using s1[THEN conjunct2, THEN conjunct1] e(1) by (simp add: set_or_not_def)
  have a3: "database_name (test_database disconnected_world) = Some (cross_mark @ asc '' Not Set'')"
    using s1[THEN conjunct2, THEN conjunct2, THEN conjunct1] e(2) by (simp add: set_or_not_def)
  have a4: "database (test_database disconnected_world) =
              warning_sign @ asc ''  Available but not initialized'' \<and>
            connection_status (test_database disconnected_world) = asc ''Not Connected'' \<and>
            collections (test_database disconnected_world) = []"
    using s1[THEN conjunct2, THEN conjunct2, THEN conjunct2, THEN conjunct2, THEN conjunct2,
        THEN conjunct1] d by (rule mp)
  have b1: "database (test_database faulty_world) =
              warning_sign @ asc ''  Connected but Error: '' @
                take 50 (asc ''timed out: '' @ replicate 60 46)"
    using s2[THEN conjunct2, THEN conjunct2, THEN conjunct2, THEN conjunct2, THEN conjunct2,
        THEN conjunct2, THEN conjunct1] f by blast
  have b2: "database_url (test_database faulty_world) = Some (check_mark @ asc '' Set'')"
    using s2[THEN conjunct2, THEN conjunct1] e(3) by (simp add: set_or_not_def)
  have b3: "database_name (test_database faulty_world) = Some (cross_mark @ asc '' Not Set'')"
    using s2[THEN conjunct2, THEN conjunct2, THEN conjunct1] e(4) by (simp add: set_or_not_def)
  have b4: "length (take 50 (asc ''timed out: '' @ replicate 60 46)) = 50"
    by (simp add: length_asc)
  have b5: "length (asc ''timed out: '' @ replicate 60 46) = 71"
    by (simp add: length_asc)
  show ?thesis
    using a1 a2 a3 a4 b1 b2 b3 b4 b5 by blast
qed

subsection \<open>Listing reservations\<close>




















end
